theory Spec2Isabelle
  imports Main
begin

section \<open>The Gloo allreduce operator of caffe2/contrib/gloo/allreduce_ops.h\<close>

text \<open>
  The operator \<^verbatim>\<open>AllreduceOp\<close> is embedded as functions on an explicit state. A C++
  exception is a value of type \<open>fault\<close>; a member function that mutates the operator
  and may throw returns the pair of \<open>Some\<close> fault (or \<open>None\<close> when it returns normally)
  and the operator as the function left it, so that the writes made before a throw
  stay visible.
\<close>

subsection \<open>Tensors, blobs of one invocation, faults\<close>

text \<open>Addresses are numbers; \<open>0\<close> is \<^verbatim>\<open>nullptr\<close>. A \<^verbatim>\<open>TypeMeta\<close> is its type id.\<close>

type_synonym address = nat
type_synonym TypeMeta = nat

text \<open>
  What the operator reads of a tensor: \<^verbatim>\<open>raw_data()\<close> (also \<^verbatim>\<open>raw_mutable_data()\<close>),
  \<^verbatim>\<open>size()\<close> and \<^verbatim>\<open>meta()\<close>. The accessors are read as plain fields.
\<close>

record Tensor =
  raw_data :: address
  size_tensor :: nat
  meta_tensor :: TypeMeta

text \<open>
  The blobs one call of \<^verbatim>\<open>RunOnDevice\<close> sees: input blob 0 holds the
  \<^verbatim>\<open>std::shared_ptr<::gloo::Context>\<close>, the input blobs \<open>1, 2, ...\<close> are tensors,
  and so are the output blobs \<open>0, 1, ...\<close>.
\<close>

record blobs =
  context_blob :: address
  input_tensors :: "Tensor list"
  output_tensors :: "Tensor list"

datatype fault =
  EnforceNotMet string
| OutOfRange
| IoException string
| OtherException string
| NullDereference

definition InputSize :: "blobs \<Rightarrow> nat" where
  "InputSize b = 1 + length (input_tensors b)"

definition OutputSize :: "blobs \<Rightarrow> nat" where
  "OutputSize b = length (output_tensors b)"

text \<open>
  Modelled from the spec: the accessor \<^verbatim>\<open>Input(i)\<close> of the operator base class
  (caffe2/core/operator.h is not among the sources). The spec's inbound interface is a
  context as first positional input, then the tensor buffers. An index outside the
  input blobs of the call is the fault \<open>OutOfRange\<close>; input 0 is not a tensor.
\<close>

definition Input :: "blobs \<Rightarrow> nat \<Rightarrow> fault + Tensor" where
  "Input b i =
     (if i = 0 then Inl (EnforceNotMet ''wrong type for the Blob instance'')
      else if i < InputSize b then Inr (input_tensors b ! (i - 1))
      else Inl OutOfRange)"

text \<open>
  Modelled from the spec: the accessor \<^verbatim>\<open>Output(i)\<close> of the operator base class, over
  the output slots of the call; an index outside them is the fault \<open>OutOfRange\<close>.
\<close>

definition Output :: "blobs \<Rightarrow> nat \<Rightarrow> fault + Tensor" where
  "Output b i =
     (if i < OutputSize b then Inr (output_tensors b ! i) else Inl OutOfRange)"

subsection \<open>\<^verbatim>\<open>GlooParameters\<close>\<close>

text \<open>
  The fields \<^verbatim>\<open>context\<close> and \<^verbatim>\<open>size\<close> carry a suffix, the other names are the
  source's.
\<close>

record GlooParameters =
  context_gp :: address
  inputs :: "address list"
  outputs :: "address list"
  size_gp :: nat
  meta :: TypeMeta

text \<open>\<^verbatim>\<open>GlooParameters::operator==\<close>: \<^verbatim>\<open>meta\<close> is not compared.\<close>

definition params_eq :: "GlooParameters \<Rightarrow> GlooParameters \<Rightarrow> bool" where
  "params_eq a other =
     (context_gp a = context_gp other \<and> inputs a = inputs other \<and>
      outputs a = outputs other \<and> size_gp a = size_gp other)"

text \<open>\<^verbatim>\<open>std::vector::resize\<close> on a vector of pointers: new elements are null.\<close>

definition resize :: "address list \<Rightarrow> nat \<Rightarrow> address list" where
  "resize xs n = take n xs @ replicate (n - length xs) 0"

text \<open>
  The loop of \<^verbatim>\<open>update\<close>, over the indices \<open>0 ..< params.inputs.size()\<close> (the two
  element writes leave the bound as it is).
\<close>

fun update_loop :: "blobs \<Rightarrow> nat list \<Rightarrow> GlooParameters \<Rightarrow> fault option \<times> GlooParameters" where
  "update_loop b [] params = (None, params)"
| "update_loop b (i # is) params =
     (case Input b (i + 1) of
        Inl e \<Rightarrow> (Some e, params)
      | Inr t \<Rightarrow>
          (case Output b i of
             Inl e \<Rightarrow> (Some e, params\<lparr>inputs := (inputs params)[i := raw_data t]\<rparr>)
           | Inr u \<Rightarrow>
               update_loop b is
                 (params\<lparr>inputs := (inputs params)[i := raw_data t],
                         outputs := (outputs params)[i := raw_data u]\<rparr>)))"

text \<open>
  \<^verbatim>\<open>update(params)\<close>. Input 0 is there in every value of \<open>blobs\<close>, so
  \<^verbatim>\<open>InputSize() - 1\<close> does not go below zero.
\<close>

definition update :: "blobs \<Rightarrow> GlooParameters \<Rightarrow> fault option \<times> GlooParameters" where
  "update b params =
     (let params1 = params\<lparr>context_gp := context_blob b\<rparr>;
          params2 = params1\<lparr>inputs := resize (inputs params1) (InputSize b - 1)\<rparr>;
          params3 = params2\<lparr>outputs := resize (outputs params2) (OutputSize b)\<rparr>
      in case update_loop b [0 ..< length (inputs params3)] params3 of
           (Some e, params4) \<Rightarrow> (Some e, params4)
         | (None, params4) \<Rightarrow>
             (case Output b 0 of
                Inl e \<Rightarrow> (Some e, params4)
              | Inr t \<Rightarrow> (None, params4\<lparr>size_gp := size_tensor t, meta := meta_tensor t\<rparr>)))"

subsection \<open>The operator\<close>

text \<open>\<^verbatim>\<open>enum Mode { RING_FULL, RING_CHUNKED, HALVING_DOUBLING }\<close>, by its values.\<close>

type_synonym Mode = nat

definition RING_FULL :: Mode where
  "RING_FULL = 0"

definition RING_CHUNKED :: Mode where
  "RING_CHUNKED = 1"

definition HALVING_DOUBLING :: Mode where
  "HALVING_DOUBLING = 2"

text \<open>
  The algorithm object behind \<^verbatim>\<open>algorithm_\<close>: which algorithm it is and the
  parameters it was constructed with.
\<close>

record Algorithm =
  alg_mode :: Mode
  alg_params :: GlooParameters

text \<open>The data members; the names are the source's without the trailing underscore.\<close>

record AllreduceOp =
  once :: bool
  algorithm :: "Algorithm option"
  init :: GlooParameters
  current :: GlooParameters
  status_blob :: string
  gpu_direct :: bool

text \<open>
  Modelled from the spec: \<^verbatim>\<open>initializeRingFull\<close>, which the header only declares. By
  the spec an initializer constructs the algorithm binding of its mode, supplying the
  context, the input and output buffer addresses, the element count and the element
  type of the baseline snapshot, and stores it.
\<close>

definition initializeRingFull :: "AllreduceOp \<Rightarrow> AllreduceOp" where
  "initializeRingFull op =
     op\<lparr>algorithm := Some \<lparr>alg_mode = RING_FULL, alg_params = init op\<rparr>\<rparr>"

text \<open>
  Modelled from the spec: \<^verbatim>\<open>initializeRingChunked\<close>, declared only; it constructs and
  stores the ring-chunked binding from the baseline snapshot.
\<close>

definition initializeRingChunked :: "AllreduceOp \<Rightarrow> AllreduceOp" where
  "initializeRingChunked op =
     op\<lparr>algorithm := Some \<lparr>alg_mode = RING_CHUNKED, alg_params = init op\<rparr>\<rparr>"

text \<open>
  Modelled from the spec: \<^verbatim>\<open>initializeHalvingDoubling\<close>, declared only; it constructs
  and stores the halving-doubling binding from the baseline snapshot.
\<close>

definition initializeHalvingDoubling :: "AllreduceOp \<Rightarrow> AllreduceOp" where
  "initializeHalvingDoubling op =
     op\<lparr>algorithm := Some \<lparr>alg_mode = HALVING_DOUBLING, alg_params = init op\<rparr>\<rparr>"

text \<open>The \<^verbatim>\<open>switch (mode)\<close> of \<^verbatim>\<open>initialize\<close> and the enforce that follows it.\<close>

definition initialize_switch :: "Mode \<Rightarrow> AllreduceOp \<Rightarrow> fault option \<times> AllreduceOp" where
  "initialize_switch mode op =
     (if mode = RING_FULL then (None, initializeRingFull op)
      else if mode = RING_CHUNKED then (None, initializeRingChunked op)
      else if mode = HALVING_DOUBLING then (None, initializeHalvingDoubling op)
      else (Some (EnforceNotMet ''Unreachable code''), op))"

text \<open>The loop \<^verbatim>\<open>CAFFE_ENFORCE_EQ(init_.inputs[i], init_.outputs[i])\<close>.\<close>

fun enforce_in_place :: "GlooParameters \<Rightarrow> nat list \<Rightarrow> fault option" where
  "enforce_in_place p [] = None"
| "enforce_in_place p (i # is) =
     (if inputs p ! i = outputs p ! i then enforce_in_place p is
      else Some (EnforceNotMet ''init_.inputs[i] == init_.outputs[i]''))"

text \<open>The loop \<^verbatim>\<open>CAFFE_ENFORCE_EQ(Input(i).size(), size)\<close>.\<close>

fun enforce_size :: "blobs \<Rightarrow> nat \<Rightarrow> nat list \<Rightarrow> fault option" where
  "enforce_size b sz [] = None"
| "enforce_size b sz (i # is) =
     (case Input b i of
        Inl e \<Rightarrow> Some e
      | Inr t \<Rightarrow>
          if size_tensor t = sz then enforce_size b sz is
          else Some (EnforceNotMet ''Input(i).size() == size''))"

text \<open>The loop \<^verbatim>\<open>CAFFE_ENFORCE(Input(i).meta() == meta)\<close>.\<close>

fun enforce_meta :: "blobs \<Rightarrow> TypeMeta \<Rightarrow> nat list \<Rightarrow> fault option" where
  "enforce_meta b m [] = None"
| "enforce_meta b m (i # is) =
     (case Input b i of
        Inl e \<Rightarrow> Some e
      | Inr t \<Rightarrow>
          if meta_tensor t = m then enforce_meta b m is
          else Some (EnforceNotMet ''Input(i).meta() == meta''))"

text \<open>
  \<^verbatim>\<open>initialize()\<close>. The first access, \<^verbatim>\<open>Input(1).nbytes()\<close>, gives the unused
  \<^verbatim>\<open>bytes\<close>. Only \<^verbatim>\<open>init_\<close> is written before the switch.
\<close>

definition initialize :: "blobs \<Rightarrow> AllreduceOp \<Rightarrow> fault option \<times> AllreduceOp" where
  "initialize b op =
     (let mode = HALVING_DOUBLING in
      case Input b 1 of
        Inl e \<Rightarrow> (Some e, op)
      | Inr bytes \<Rightarrow>
     (case update b (init op) of
        (Some e, p) \<Rightarrow> (Some e, op\<lparr>init := p\<rparr>)
      | (None, p) \<Rightarrow>
     (let op1 = op\<lparr>init := p\<rparr> in
      if length (inputs p) \<noteq> length (outputs p)
      then (Some (EnforceNotMet ''init_.inputs.size() == init_.outputs.size()''), op1)
      else
     (case enforce_in_place p [0 ..< length (inputs p)] of
        Some e \<Rightarrow> (Some e, op1)
      | None \<Rightarrow>
     (case Input b 1 of
        Inl e \<Rightarrow> (Some e, op1)
      | Inr t \<Rightarrow>
     (case enforce_size b (size_tensor t) [2 ..< InputSize b] of
        Some e \<Rightarrow> (Some e, op1)
      | None \<Rightarrow>
     (case Input b 1 of
        Inl e \<Rightarrow> (Some e, op1)
      | Inr t' \<Rightarrow>
     (case enforce_meta b (meta_tensor t') [2 ..< InputSize b] of
        Some e \<Rightarrow> (Some e, op1)
      | None \<Rightarrow> initialize_switch mode op1))))))))"

text \<open>
  \<^verbatim>\<open>std::call_once(once_, [&] { initialize(); })\<close> as one thread sees it: the flag is
  set when the call returns; when the call throws, the exception goes to the caller
  and the flag stays as it was.
\<close>

definition call_once :: "blobs \<Rightarrow> AllreduceOp \<Rightarrow> fault option \<times> AllreduceOp" where
  "call_once b op =
     (if once op then (None, op)
      else case initialize b op of
             (Some e, op') \<Rightarrow> (Some e, op')
           | (None, op') \<Rightarrow> (None, op'\<lparr>once := True\<rparr>))"

subsection \<open>Workspace, operator definition, constructor\<close>

text \<open>
  Modelled from the spec: the workspace that \<^verbatim>\<open>ws_\<close> points to
  (caffe2/core/workspace.h is not among the sources). The failure signal of the spec
  is a named, externally addressable storage slot that receives a failure record with
  the message of the fault; the workspace maps names to such slots.
\<close>

datatype blob = EmptyBlob | FailureRecord string

type_synonym Workspace = "string \<rightharpoonup> blob"

text \<open>
  Modelled from the spec: \<^verbatim>\<open>Workspace::CreateBlob\<close>, which creates the named slot (a
  slot that is already there is kept).
\<close>

definition CreateBlob :: "Workspace \<Rightarrow> string \<Rightarrow> Workspace" where
  "CreateBlob ws name = (case ws name of None \<Rightarrow> ws(name \<mapsto> EmptyBlob) | Some v \<Rightarrow> ws)"

text \<open>Modelled from the spec: \<^verbatim>\<open>Workspace::GetBlob\<close>, the lookup of a slot; null when absent.\<close>

definition GetBlob :: "Workspace \<Rightarrow> string \<Rightarrow> blob option" where
  "GetBlob ws name = ws name"

text \<open>
  Modelled from the spec: \<^verbatim>\<open>signalFailure\<close> of caffe2/contrib/gloo/common.h (not among
  the sources), which writes the fault into the slot: afterwards the slot holds a
  record with the fault's message.
\<close>

definition signalFailure :: "Workspace \<Rightarrow> string \<Rightarrow> string \<Rightarrow> Workspace" where
  "signalFailure ws name what = ws(name \<mapsto> FailureRecord what)"

text \<open>
  Modelled from the spec: the arguments of the \<^verbatim>\<open>OperatorDef\<close> (the protobuf
  definitions are not among the sources): the configuration surface is a list of named
  options, each a string or a boolean.
\<close>

datatype argument = StringArg string | BoolArg bool

type_synonym OperatorDef = "(string \<times> argument) list"

text \<open>
  Modelled from the spec: \<^verbatim>\<open>GetSingleArgument<std::string>\<close> of the operator base
  class: the value of the named option, or the default when the option is absent.
\<close>

definition GetSingleArgument_string :: "OperatorDef \<Rightarrow> string \<Rightarrow> string \<Rightarrow> string" where
  "GetSingleArgument_string def name default_value =
     (case map_of def name of Some (StringArg s) \<Rightarrow> s | _ \<Rightarrow> default_value)"

text \<open>
  Modelled from the spec: \<^verbatim>\<open>GetSingleArgument<bool>\<close> of the operator base class: the
  value of the named option, or the default when the option is absent.
\<close>

definition GetSingleArgument_bool :: "OperatorDef \<Rightarrow> string \<Rightarrow> bool \<Rightarrow> bool" where
  "GetSingleArgument_bool def name default_value =
     (case map_of def name of Some (BoolArg v) \<Rightarrow> v | _ \<Rightarrow> default_value)"

text \<open>
  The state one call works on: the operator, the workspace behind \<^verbatim>\<open>ws_\<close>, and the
  number of calls of \<^verbatim>\<open>algorithm_->run()\<close> made so far.
\<close>

record machine =
  self :: AllreduceOp
  workspace :: Workspace
  runs :: nat

text \<open>
  The constructor. The members \<^verbatim>\<open>init_\<close> and \<^verbatim>\<open>current_\<close> start with empty vectors;
  their \<^verbatim>\<open>size\<close> has no initializer in the source and is written by \<^verbatim>\<open>update\<close>
  before \<^verbatim>\<open>operator==\<close> reads it, so its start value here is \<open>0\<close>.
\<close>

definition empty_parameters :: GlooParameters where
  "empty_parameters =
     \<lparr>context_gp = 0, inputs = [], outputs = [], size_gp = 0, meta = 0\<rparr>"

definition AllreduceOp_new :: "OperatorDef \<Rightarrow> Workspace \<Rightarrow> machine" where
  "AllreduceOp_new operator_def ws =
     (let sb = GetSingleArgument_string operator_def ''status_blob'' '''';
          gd = GetSingleArgument_bool operator_def ''gpu_direct'' False
      in \<lparr>self = \<lparr>once = False, algorithm = None, init = empty_parameters,
                  current = empty_parameters, status_blob = sb, gpu_direct = gd\<rparr>,
          workspace = (if sb \<noteq> '''' then CreateBlob ws sb else ws),
          runs = 0\<rparr>)"

subsection \<open>\<^verbatim>\<open>RunOnDevice\<close>\<close>

text \<open>
  What \<^verbatim>\<open>algorithm_->run()\<close> does is the communication library's; one call of
  \<^verbatim>\<open>RunOnDevice\<close> takes it as given: it completes, throws a \<^verbatim>\<open>::gloo::IoException\<close>,
  or throws something else (which \<^verbatim>\<open>RunOnDevice\<close> does not catch). A call through a
  null \<^verbatim>\<open>algorithm_\<close>, or of \<^verbatim>\<open>signalFailure\<close> on a null blob, is the fault
  \<open>NullDereference\<close>.
\<close>

datatype run_result = Completes | ThrowsIo string | ThrowsOther string

datatype outcome = Returned bool | Threw fault

definition RunOnDevice :: "run_result \<Rightarrow> blobs \<Rightarrow> machine \<Rightarrow> outcome \<times> machine" where
  "RunOnDevice r b m =
     (case call_once b (self m) of
        (Some e, op1) \<Rightarrow> (Threw e, m\<lparr>self := op1\<rparr>)
      | (None, op1) \<Rightarrow>
     (case update b (current op1) of
        (Some e, c) \<Rightarrow> (Threw e, m\<lparr>self := op1\<lparr>current := c\<rparr>\<rparr>)
      | (None, c) \<Rightarrow>
     (let op2 = op1\<lparr>current := c\<rparr> in
      if \<not> params_eq (current op2) (init op2)
      then (Threw (EnforceNotMet ''Inputs/outputs have changed''), m\<lparr>self := op2\<rparr>)
      else
     (case algorithm op2 of
        None \<Rightarrow> (Threw NullDereference, m\<lparr>self := op2\<rparr>)
      | Some a \<Rightarrow>
     (let m1 = m\<lparr>self := op2, runs := runs m + 1\<rparr> in
      case r of
        Completes \<Rightarrow> (Returned True, m1)
      | ThrowsOther what \<Rightarrow> (Threw (OtherException what), m1)
      | ThrowsIo what \<Rightarrow>
          if status_blob op2 \<noteq> ''''
          then (case GetBlob (workspace m1) (status_blob op2) of
                  None \<Rightarrow> (Threw NullDereference, m1)
                | Some v \<Rightarrow>
                    (Returned False,
                     m1\<lparr>workspace := signalFailure (workspace m1) (status_blob op2) what\<rparr>))
          else (Threw (IoException what), m1))))))"

subsection \<open>The structural invariants of a snapshot, in the spec's words\<close>

text \<open>
  Equal input and output counts; every input buffer is its output buffer; every input
  buffer has the element count of the first; every input buffer has the element type
  of the first.
\<close>

definition same_count :: "blobs \<Rightarrow> bool" where
  "same_count b = (length (input_tensors b) = length (output_tensors b))"

definition in_place :: "blobs \<Rightarrow> bool" where
  "in_place b =
     (\<forall>i \<in> set [0 ..< length (input_tensors b)].
        raw_data (input_tensors b ! i) = raw_data (output_tensors b ! i))"

definition uniform_size :: "blobs \<Rightarrow> bool" where
  "uniform_size b =
     (\<forall>t \<in> set (input_tensors b). size_tensor t = size_tensor (hd (input_tensors b)))"

definition uniform_meta :: "blobs \<Rightarrow> bool" where
  "uniform_meta b =
     (\<forall>t \<in> set (input_tensors b). meta_tensor t = meta_tensor (hd (input_tensors b)))"

subsection \<open>The mode of the binding, and the mode the spec's configuration surface names\<close>

definition bound_mode :: "AllreduceOp \<Rightarrow> Mode option" where
  "bound_mode op = map_option alg_mode (algorithm op)"

text \<open>
  The spec's words: the option \<^verbatim>\<open>algorithm_mode\<close> is one of ring-full, ring-chunked and
  halving-doubling, and halving-doubling is the default. Any other value is outside
  the recognized set.
\<close>

definition spec_algorithm_mode :: "OperatorDef \<Rightarrow> Mode option" where
  "spec_algorithm_mode operator_def =
     (case map_of operator_def ''algorithm_mode'' of
        None \<Rightarrow> Some HALVING_DOUBLING
      | Some (StringArg s) \<Rightarrow>
          if s = ''ring-full'' then Some RING_FULL
          else if s = ''ring-chunked'' then Some RING_CHUNKED
          else if s = ''halving-doubling'' then Some HALVING_DOUBLING
          else None
      | Some (BoolArg v) \<Rightarrow> None)"

subsection \<open>Concrete invocations\<close>

text \<open>
  Two tensors of four elements of type 1 at the addresses 100 and 200, reduced in
  place; then the same call with the second buffer at another address, with the
  second buffer of eight elements, and with both buffers of type 2.
\<close>

definition empty_workspace :: Workspace where
  "empty_workspace = Map.empty"

definition two_tensors :: blobs where
  "two_tensors =
     \<lparr>context_blob = 7,
      input_tensors = [\<lparr>raw_data = 100, size_tensor = 4, meta_tensor = 1\<rparr>,
                       \<lparr>raw_data = 200, size_tensor = 4, meta_tensor = 1\<rparr>],
      output_tensors = [\<lparr>raw_data = 100, size_tensor = 4, meta_tensor = 1\<rparr>,
                        \<lparr>raw_data = 200, size_tensor = 4, meta_tensor = 1\<rparr>]\<rparr>"

definition second_moved :: blobs where
  "second_moved =
     \<lparr>context_blob = 7,
      input_tensors = [\<lparr>raw_data = 100, size_tensor = 4, meta_tensor = 1\<rparr>,
                       \<lparr>raw_data = 300, size_tensor = 4, meta_tensor = 1\<rparr>],
      output_tensors = [\<lparr>raw_data = 100, size_tensor = 4, meta_tensor = 1\<rparr>,
                        \<lparr>raw_data = 300, size_tensor = 4, meta_tensor = 1\<rparr>]\<rparr>"

definition second_resized :: blobs where
  "second_resized =
     \<lparr>context_blob = 7,
      input_tensors = [\<lparr>raw_data = 100, size_tensor = 4, meta_tensor = 1\<rparr>,
                       \<lparr>raw_data = 200, size_tensor = 8, meta_tensor = 1\<rparr>],
      output_tensors = [\<lparr>raw_data = 100, size_tensor = 4, meta_tensor = 1\<rparr>,
                        \<lparr>raw_data = 200, size_tensor = 8, meta_tensor = 1\<rparr>]\<rparr>"

definition both_retyped :: blobs where
  "both_retyped =
     \<lparr>context_blob = 7,
      input_tensors = [\<lparr>raw_data = 100, size_tensor = 4, meta_tensor = 2\<rparr>,
                       \<lparr>raw_data = 200, size_tensor = 4, meta_tensor = 2\<rparr>],
      output_tensors = [\<lparr>raw_data = 100, size_tensor = 4, meta_tensor = 2\<rparr>,
                        \<lparr>raw_data = 200, size_tensor = 4, meta_tensor = 2\<rparr>]\<rparr>"

text \<open>An operator after its first run, without and with a status blob.\<close>

definition ready_machine :: machine where
  "ready_machine = snd (RunOnDevice Completes two_tensors (AllreduceOp_new [] empty_workspace))"

definition signalling_machine :: machine where
  "signalling_machine =
     snd (RunOnDevice Completes two_tensors
            (AllreduceOp_new [(''status_blob'', StringArg ''status'')] empty_workspace))"


definition context_only :: blobs where
  "context_only = \<lparr>context_blob = 7, input_tensors = [], output_tensors = []\<rparr>"

definition ring_full_config :: OperatorDef where
  "ring_full_config = [(''algorithm_mode'', StringArg ''ring-full'')]"

section \<open>Properties\<close>

subsection \<open>Blob accesses and the loop of \<^verbatim>\<open>update\<close>\<close>

lemma Input_in: "k < length (input_tensors b) \<Longrightarrow> Input b (Suc k) = Inr (input_tensors b ! k)"
  by (simp add: Input_def InputSize_def)

lemma Input_out: "length (input_tensors b) \<le> k \<Longrightarrow> Input b (Suc k) = Inl OutOfRange"
  by (simp add: Input_def InputSize_def)

lemma Output_in: "i < length (output_tensors b) \<Longrightarrow> Output b i = Inr (output_tensors b ! i)"
  by (simp add: Output_def OutputSize_def)

lemma Output_out: "length (output_tensors b) \<le> i \<Longrightarrow> Output b i = Inl OutOfRange"
  by (simp add: Output_def OutputSize_def)

lemma length_resize: "length (resize xs n) = n"
  by (simp add: resize_def)

lemma list_update_as_map:
  "map (\<lambda>j. if j \<in> S then f j else xs[i := f i] ! j) [0 ..< length xs] =
   map (\<lambda>j. if j \<in> insert i S then f j else xs ! j) [0 ..< length xs]"
  by (simp add: nth_list_update)

lemma update_loop_returns:
  assumes "\<forall>i\<in>set is. i < length (input_tensors b) \<and> i < length (output_tensors b)"
  shows "update_loop b is p =
     (None, p\<lparr>inputs := map (\<lambda>j. if j \<in> set is then raw_data (input_tensors b ! j) else inputs p ! j)
                           [0 ..< length (inputs p)],
              outputs := map (\<lambda>j. if j \<in> set is then raw_data (output_tensors b ! j) else outputs p ! j)
                           [0 ..< length (outputs p)]\<rparr>)"
  using assms
proof (induction "is" arbitrary: p)
  case Nil
  show ?case by (simp add: map_nth)
next
  case (Cons i "is")
  let ?p1 = "p\<lparr>inputs := (inputs p)[i := raw_data (input_tensors b ! i)],
               outputs := (outputs p)[i := raw_data (output_tensors b ! i)]\<rparr>"
  from Cons.prems have i: "i < length (input_tensors b)" "i < length (output_tensors b)"
    and rest: "\<forall>i\<in>set is. i < length (input_tensors b) \<and> i < length (output_tensors b)"
    by simp_all
  have "update_loop b (i # is) p = update_loop b is ?p1"
    by (simp add: Input_in [OF i(1)] Output_in [OF i(2)])
  also note Cons.IH [OF rest, of ?p1]
  finally show ?case
    by (simp add: list_update_as_map
          [of _ "\<lambda>j. raw_data (input_tensors b ! j)"]
          list_update_as_map [of _ "\<lambda>j. raw_data (output_tensors b ! j)"])
qed

lemma update_loop_throws:
  assumes "\<forall>i\<in>set is. i < length (input_tensors b)"
    and "\<exists>i\<in>set is. length (output_tensors b) \<le> i"
  shows "fst (update_loop b is p) = Some OutOfRange"
  using assms
proof (induction "is" arbitrary: p)
  case Nil
  then show ?case by simp
next
  case (Cons i "is")
  from Cons.prems(1) have i: "i < length (input_tensors b)" by simp
  show ?case
  proof (cases "i < length (output_tensors b)")
    case True
    with Cons.prems have "\<forall>i\<in>set is. i < length (input_tensors b)"
      and "\<exists>i\<in>set is. length (output_tensors b) \<le> i" by auto
    from Cons.IH [OF this] show ?thesis
      by (simp add: Input_in [OF i] Output_in [OF True])
  next
    case False
    then have "length (output_tensors b) \<le> i" by simp
    then show ?thesis
      by (simp add: Input_in [OF i] Output_out)
  qed
qed


lemma update_returns:
  assumes "length (input_tensors b) \<le> length (output_tensors b)" and "output_tensors b \<noteq> []"
  shows "update b p =
     (None, p\<lparr>context_gp := context_blob b,
              inputs := map raw_data (input_tensors b),
              outputs := map (\<lambda>j. if j < length (input_tensors b) then raw_data (output_tensors b ! j)
                                 else resize (outputs p) (length (output_tensors b)) ! j)
                            [0 ..< length (output_tensors b)],
              size_gp := size_tensor (output_tensors b ! 0),
              meta := meta_tensor (output_tensors b ! 0)\<rparr>)"
proof -
  let ?n = "length (input_tensors b)"
  let ?p3 = "p\<lparr>context_gp := context_blob b,
               inputs := resize (inputs p) ?n,
               outputs := resize (outputs p) (length (output_tensors b))\<rparr>"
  have "\<forall>i\<in>set [0 ..< ?n]. i < length (input_tensors b) \<and> i < length (output_tensors b)"
    using assms(1) by simp
  note loop = update_loop_returns [OF this, of ?p3]
  have ins: "map (\<lambda>j. if j < ?n then raw_data (input_tensors b ! j) else inputs ?p3 ! j) [0 ..< ?n] =
      map raw_data (input_tensors b)"
    by (rule nth_equalityI) simp_all
  have outs: "map (\<lambda>j. if j < ?n then raw_data (output_tensors b ! j) else outputs ?p3 ! j)
        [0 ..< length (output_tensors b)] =
      map (\<lambda>j. if j < ?n then raw_data (output_tensors b ! j)
               else resize (outputs p) (length (output_tensors b)) ! j)
        [0 ..< length (output_tensors b)]"
    by (rule nth_equalityI) simp_all
  have out0: "Output b 0 = Inr (output_tensors b ! 0)"
    using assms(2) by (simp add: Output_in)
  have "update b p =
      (case update_loop b [0 ..< ?n] ?p3 of
           (Some e, params4) \<Rightarrow> (Some e, params4)
         | (None, params4) \<Rightarrow>
             (case Output b 0 of
                Inl e \<Rightarrow> (Some e, params4)
              | Inr t \<Rightarrow> (None, params4\<lparr>size_gp := size_tensor t, meta := meta_tensor t\<rparr>)))"
    by (simp add: update_def Let_def InputSize_def OutputSize_def length_resize)
  also have "\<dots> = (None, (snd (update_loop b [0 ..< ?n] ?p3))
       \<lparr>size_gp := size_tensor (output_tensors b ! 0), meta := meta_tensor (output_tensors b ! 0)\<rparr>)"
    by (simp add: loop out0)
  finally show ?thesis
    by (simp add: loop length_resize ins outs)
qed

lemma update_throws:
  assumes "length (output_tensors b) < length (input_tensors b) \<or> output_tensors b = []"
  shows "fst (update b p) = Some OutOfRange"
proof (cases "length (output_tensors b) < length (input_tensors b)")
  case True
  let ?n = "length (input_tensors b)"
  let ?p3 = "p\<lparr>context_gp := context_blob b,
               inputs := resize (inputs p) ?n,
               outputs := resize (outputs p) (length (output_tensors b))\<rparr>"
  have "\<forall>i\<in>set [0 ..< ?n]. i < length (input_tensors b)" by simp
  moreover have "\<exists>i\<in>set [0 ..< ?n]. length (output_tensors b) \<le> i"
    using True by auto
  ultimately have "fst (update_loop b [0 ..< ?n] ?p3) = Some OutOfRange"
    by (rule update_loop_throws)
  then obtain q where "update_loop b [0 ..< ?n] ?p3 = (Some OutOfRange, q)"
    by (cases "update_loop b [0 ..< ?n] ?p3") simp
  then show ?thesis
    by (simp add: update_def Let_def InputSize_def OutputSize_def length_resize)
next
  case False
  with assms have "output_tensors b = []" "input_tensors b = []" by auto
  then show ?thesis
    by (simp add: update_def Let_def InputSize_def OutputSize_def resize_def Output_out)
qed

subsection \<open>The checks of \<^verbatim>\<open>initialize\<close>\<close>

lemma Input_at: "0 < i \<Longrightarrow> i \<le> length (input_tensors b) \<Longrightarrow> Input b i = Inr (input_tensors b ! (i - 1))"
  by (simp add: Input_def InputSize_def)

lemma enforce_in_place_eq:
  "enforce_in_place p is =
     (if \<forall>i\<in>set is. inputs p ! i = outputs p ! i then None
      else Some (EnforceNotMet ''init_.inputs[i] == init_.outputs[i]''))"
  by (induction "is") simp_all

lemma enforce_size_eq:
  assumes "\<forall>i\<in>set is. 0 < i \<and> i \<le> length (input_tensors b)"
  shows "enforce_size b sz is =
     (if \<forall>i\<in>set is. size_tensor (input_tensors b ! (i - 1)) = sz then None
      else Some (EnforceNotMet ''Input(i).size() == size''))"
  using assms by (induction "is") (simp_all add: Input_at)

lemma enforce_meta_eq:
  assumes "\<forall>i\<in>set is. 0 < i \<and> i \<le> length (input_tensors b)"
  shows "enforce_meta b m is =
     (if \<forall>i\<in>set is. meta_tensor (input_tensors b ! (i - 1)) = m then None
      else Some (EnforceNotMet ''Input(i).meta() == meta''))"
  using assms by (induction "is") (simp_all add: Input_at)

lemma all_from_second:
  assumes "xs \<noteq> []"
  shows "(\<forall>i\<in>set [2 ..< Suc (length xs)]. f (xs ! (i - 1)) = f (xs ! 0)) \<longleftrightarrow>
         (\<forall>t\<in>set xs. f t = f (hd xs))"
proof
  assume L: "\<forall>i\<in>set [2 ..< Suc (length xs)]. f (xs ! (i - 1)) = f (xs ! 0)"
  show "\<forall>t\<in>set xs. f t = f (hd xs)"
  proof
    fix t assume "t \<in> set xs"
    then obtain k where k: "k < length xs" "t = xs ! k"
      by (auto simp: in_set_conv_nth)
    show "f t = f (hd xs)"
    proof (cases k)
      case 0
      with k assms show ?thesis by (simp add: hd_conv_nth)
    next
      case (Suc j)
      with k(1) have "2 \<le> Suc k" "Suc k < Suc (length xs)" by simp_all
      then have "Suc k \<in> set [2 ..< Suc (length xs)]"
        by (simp only: set_upt atLeastLessThan_iff)
      from L [rule_format, OF this] have "f (xs ! k) = f (xs ! 0)" by simp
      with k(2) assms show ?thesis by (simp add: hd_conv_nth)
    qed
  qed
next
  assume R: "\<forall>t\<in>set xs. f t = f (hd xs)"
  show "\<forall>i\<in>set [2 ..< Suc (length xs)]. f (xs ! (i - 1)) = f (xs ! 0)"
  proof
    fix i assume "i \<in> set [2 ..< Suc (length xs)]"
    then have "2 \<le> i" "i < Suc (length xs)"
      by (simp_all only: set_upt atLeastLessThan_iff)
    then have "i - 1 < length xs" by arith
    then have "xs ! (i - 1) \<in> set xs" by (rule nth_mem)
    with R have "f (xs ! (i - 1)) = f (hd xs)" by blast
    with assms show "f (xs ! (i - 1)) = f (xs ! 0)" by (simp add: hd_conv_nth)
  qed
qed

lemma initialize_eq:
  assumes ne: "input_tensors b \<noteq> []"
    and le: "length (input_tensors b) \<le> length (output_tensors b)"
  shows "initialize b op =
     (let op1 = op\<lparr>init := snd (update b (init op))\<rparr> in
      if \<not> same_count b
      then (Some (EnforceNotMet ''init_.inputs.size() == init_.outputs.size()''), op1)
      else if \<not> in_place b
      then (Some (EnforceNotMet ''init_.inputs[i] == init_.outputs[i]''), op1)
      else if \<not> uniform_size b
      then (Some (EnforceNotMet ''Input(i).size() == size''), op1)
      else if \<not> uniform_meta b
      then (Some (EnforceNotMet ''Input(i).meta() == meta''), op1)
      else initialize_switch HALVING_DOUBLING op1)"
proof -
  let ?ins = "input_tensors b" and ?outs = "output_tensors b"
  let ?n = "length ?ins"
  from ne le have outs: "?outs \<noteq> []" by auto
  obtain p where up: "update b (init op) = (None, p)"
    and p_in: "inputs p = map raw_data ?ins"
    and p_out: "outputs p = map (\<lambda>j. if j < ?n then raw_data (?outs ! j)
                 else resize (outputs (init op)) (length ?outs) ! j) [0 ..< length ?outs]"
    using update_returns [OF le outs, of "init op"] by simp
  have in1: "Input b 1 = Inr (?ins ! 0)"
    using ne by (simp add: Input_def InputSize_def)
  have len: "length (inputs p) = ?n" "length (outputs p) = length ?outs"
    by (simp_all add: p_in p_out)
  have ip: "enforce_in_place p [0 ..< length (inputs p)] =
      (if in_place b then None else Some (EnforceNotMet ''init_.inputs[i] == init_.outputs[i]''))"
    if sc: "same_count b"
  proof -
    from sc have eq: "length ?outs = ?n" by (simp add: same_count_def)
    have o: "outputs p = map raw_data ?outs"
      unfolding p_out by (rule nth_equalityI) (simp_all add: eq)
    have "(\<forall>i\<in>set [0 ..< ?n]. inputs p ! i = outputs p ! i) \<longleftrightarrow> in_place b"
      by (simp add: in_place_def p_in o eq)
    then show ?thesis
      by (simp add: enforce_in_place_eq len)
  qed
  have IS: "InputSize b = Suc ?n"
    by (simp add: InputSize_def)
  have rng: "\<forall>i\<in>set [2 ..< Suc ?n]. 0 < i \<and> i \<le> ?n"
    by auto
  have sz: "enforce_size b (size_tensor (?ins ! 0)) [2 ..< InputSize b] =
      (if uniform_size b then None else Some (EnforceNotMet ''Input(i).size() == size''))"
    by (simp only: IS enforce_size_eq [OF rng] all_from_second [OF ne, of size_tensor]
          uniform_size_def)
  have mt: "enforce_meta b (meta_tensor (?ins ! 0)) [2 ..< InputSize b] =
      (if uniform_meta b then None else Some (EnforceNotMet ''Input(i).meta() == meta''))"
    by (simp only: IS enforce_meta_eq [OF rng] all_from_second [OF ne, of meta_tensor]
          uniform_meta_def)
  let ?op1 = "op\<lparr>init := p\<rparr>"
  have unf: "initialize b op =
     (if length (inputs p) \<noteq> length (outputs p)
      then (Some (EnforceNotMet ''init_.inputs.size() == init_.outputs.size()''), ?op1)
      else
     (case enforce_in_place p [0 ..< length (inputs p)] of
        Some e \<Rightarrow> (Some e, ?op1)
      | None \<Rightarrow>
     (case enforce_size b (size_tensor (?ins ! 0)) [2 ..< InputSize b] of
        Some e \<Rightarrow> (Some e, ?op1)
      | None \<Rightarrow>
     (case enforce_meta b (meta_tensor (?ins ! 0)) [2 ..< InputSize b] of
        Some e \<Rightarrow> (Some e, ?op1)
      | None \<Rightarrow> initialize_switch HALVING_DOUBLING ?op1))))"
    unfolding initialize_def Let_def in1 up by (simp split: option.split)
  show ?thesis
  proof (cases "same_count b")
    case False
    then show ?thesis
      unfolding unf by (simp add: Let_def up len same_count_def)
  next
    case True
    then have "length (inputs p) = length (outputs p)"
      by (simp add: len same_count_def)
    with True show ?thesis
      unfolding unf sz mt ip [OF True] by (simp add: Let_def up)
  qed
qed

lemma initialize_switch_default:
  "initialize_switch HALVING_DOUBLING op = (None, initializeHalvingDoubling op)"
  by (simp add: initialize_switch_def HALVING_DOUBLING_def RING_FULL_def RING_CHUNKED_def)

lemma initialize_no_tensor:
  assumes "input_tensors b = []"
  shows "initialize b op = (Some OutOfRange, op)"
  using assms by (simp add: initialize_def Input_def InputSize_def)

lemma initialize_few_outputs:
  assumes "length (output_tensors b) < length (input_tensors b)"
  shows "initialize b op = (Some OutOfRange, op\<lparr>init := snd (update b (init op))\<rparr>)"
proof -
  from assms have ne: "input_tensors b \<noteq> []" by auto
  then have in1: "Input b 1 = Inr (input_tensors b ! 0)"
    by (simp add: Input_def InputSize_def)
  from assms have "fst (update b (init op)) = Some OutOfRange"
    by (simp add: update_throws)
  then obtain p where "update b (init op) = (Some OutOfRange, p)"
    by (cases "update b (init op)") simp
  then show ?thesis
    unfolding initialize_def Let_def in1 by simp
qed

lemma initialize_fault:
  "fst (initialize b op) =
     (if input_tensors b = [] \<or> length (output_tensors b) < length (input_tensors b)
      then Some OutOfRange
      else if \<not> same_count b
      then Some (EnforceNotMet ''init_.inputs.size() == init_.outputs.size()'')
      else if \<not> in_place b
      then Some (EnforceNotMet ''init_.inputs[i] == init_.outputs[i]'')
      else if \<not> uniform_size b
      then Some (EnforceNotMet ''Input(i).size() == size'')
      else if \<not> uniform_meta b
      then Some (EnforceNotMet ''Input(i).meta() == meta'')
      else None)"
proof (cases "input_tensors b = [] \<or> length (output_tensors b) < length (input_tensors b)")
  case True
  then show ?thesis
    using initialize_no_tensor [of b op] initialize_few_outputs [of b op] by auto
next
  case False
  then have "input_tensors b \<noteq> []" "length (input_tensors b) \<le> length (output_tensors b)"
    by simp_all
  from initialize_eq [OF this, of op] False show ?thesis
    by (simp add: Let_def initialize_switch_default)
qed

lemma initialize_frame:
  "once (snd (initialize b op)) = once op \<and>
   current (snd (initialize b op)) = current op \<and>
   status_blob (snd (initialize b op)) = status_blob op \<and>
   gpu_direct (snd (initialize b op)) = gpu_direct op"
proof (cases "input_tensors b = [] \<or> length (output_tensors b) < length (input_tensors b)")
  case True
  then show ?thesis
    using initialize_no_tensor [of b op] initialize_few_outputs [of b op] by auto
next
  case False
  then have "input_tensors b \<noteq> []" "length (input_tensors b) \<le> length (output_tensors b)"
    by simp_all
  from initialize_eq [OF this, of op] show ?thesis
    by (simp add: Let_def initialize_switch_default initializeHalvingDoubling_def)
qed

lemma initialize_binding:
  "algorithm (snd (initialize b op)) =
     (if fst (initialize b op) = None
      then Some \<lparr>alg_mode = HALVING_DOUBLING, alg_params = init (snd (initialize b op))\<rparr>
      else algorithm op)"
proof (cases "input_tensors b = [] \<or> length (output_tensors b) < length (input_tensors b)")
  case True
  then show ?thesis
    using initialize_no_tensor [of b op] initialize_few_outputs [of b op] by auto
next
  case False
  then have "input_tensors b \<noteq> []" "length (input_tensors b) \<le> length (output_tensors b)"
    by simp_all
  from initialize_eq [OF this, of op] show ?thesis
    by (simp add: Let_def initialize_switch_default initializeHalvingDoubling_def)
qed

lemma update_fault:
  "fst (update b p) =
     (if length (input_tensors b) \<le> length (output_tensors b) \<and> output_tensors b \<noteq> []
      then None else Some OutOfRange)"
proof (cases "length (input_tensors b) \<le> length (output_tensors b) \<and> output_tensors b \<noteq> []")
  case True
  then show ?thesis by (simp add: update_returns)
next
  case False
  then have "length (output_tensors b) < length (input_tensors b) \<or> output_tensors b = []"
    by auto
  from update_throws [OF this] False show ?thesis by simp
qed

lemma update_same_buffers:
  assumes c: "context_blob b' = context_blob b"
    and i: "map raw_data (input_tensors b') = map raw_data (input_tensors b)"
    and o: "map raw_data (output_tensors b') = map raw_data (output_tensors b)"
    and s: "size_tensor (hd (output_tensors b')) = size_tensor (hd (output_tensors b))"
    and ok: "update b p = (None, q)"
  shows "\<exists>q'. update b' p = (None, q') \<and> params_eq q' q"
proof -
  from i have li: "length (input_tensors b') = length (input_tensors b)"
    by (rule map_eq_imp_length_eq)
  from o have lo: "length (output_tensors b') = length (output_tensors b)"
    by (rule map_eq_imp_length_eq)
  from ok have "fst (update b p) = None" by simp
  then have le: "length (input_tensors b) \<le> length (output_tensors b)"
    and ne: "output_tensors b \<noteq> []"
    by (simp_all add: update_fault split: if_splits)
  from le ne li lo have le': "length (input_tensors b') \<le> length (output_tensors b')"
    and ne': "output_tensors b' \<noteq> []" by auto
  have nth: "raw_data (output_tensors b' ! j) = raw_data (output_tensors b ! j)"
    if "j < length (output_tensors b)" for j
    using that o lo by (metis nth_map)
  from ne ne' s have s0: "size_tensor (output_tensors b' ! 0) = size_tensor (output_tensors b ! 0)"
    by (simp add: hd_conv_nth)
  from ok have q: "q = snd (update b p)" by simp
  show ?thesis
    unfolding q update_returns [OF le ne] update_returns [OF le' ne']
    by (simp add: params_eq_def c i li lo nth s0)
qed

lemma RunOnDevice_same_buffers:
  assumes rd: "once (self m)"
    and c: "context_blob b' = context_blob b"
    and i: "map raw_data (input_tensors b') = map raw_data (input_tensors b)"
    and o: "map raw_data (output_tensors b') = map raw_data (output_tensors b)"
    and s: "size_tensor (hd (output_tensors b')) = size_tensor (hd (output_tensors b))"
    and ok: "runs (snd (RunOnDevice r b m)) = Suc (runs m)"
  shows "runs (snd (RunOnDevice r b' m)) = Suc (runs m) \<and>
         fst (RunOnDevice r b' m) = fst (RunOnDevice r b m)"
proof -
  obtain f q where u: "update b (current (self m)) = (f, q)"
    by (cases "update b (current (self m))")
  from ok rd u have f: "f = None" and eq: "params_eq q (init (self m))"
    and a: "algorithm (self m) \<noteq> None"
    by (auto simp: RunOnDevice_def call_once_def Let_def
          split: option.splits if_splits)
  from update_same_buffers [OF c i o s u [unfolded f]]
  obtain q' where u': "update b' (current (self m)) = (None, q')" and pe: "params_eq q' q"
    by blast
  from pe eq have eq': "params_eq q' (init (self m))"
    by (simp add: params_eq_def)
  from a obtain al where al: "algorithm (self m) = Some al"
    by blast
  show ?thesis
    by (simp add: RunOnDevice_def call_once_def Let_def rd u f u' eq eq' al GetBlob_def
          split: run_result.split option.split)
qed

subsection \<open>The status blob\<close>

lemma call_once_frame:
  "status_blob (snd (call_once b op)) = status_blob op"
  using initialize_frame [of b op]
  by (cases "initialize b op") (auto simp: call_once_def split: option.split)

lemma status_blob_created:
  assumes "status_blob (self (AllreduceOp_new operator_def ws)) \<noteq> ''''"
  shows "workspace (AllreduceOp_new operator_def ws)
           (status_blob (self (AllreduceOp_new operator_def ws))) \<noteq> None"
  using assms
  by (simp add: AllreduceOp_new_def Let_def CreateBlob_def split: option.split)

lemma RunOnDevice_keeps_status_blob:
  "status_blob (self (snd (RunOnDevice r b m))) = status_blob (self m) \<and>
   (workspace m (status_blob (self m)) \<noteq> None \<longrightarrow>
    workspace (snd (RunOnDevice r b m)) (status_blob (self m)) \<noteq> None)"
proof -
  obtain f0 op1 where co: "call_once b (self m) = (f0, op1)"
    by (cases "call_once b (self m)")
  then have sb: "status_blob op1 = status_blob (self m)"
    using call_once_frame [of b "self m"] by simp
  obtain f1 c where up: "update b (current op1) = (f1, c)"
    by (cases "update b (current op1)")
  show ?thesis
    by (simp add: RunOnDevice_def Let_def co up sb GetBlob_def signalFailure_def
          split: option.split run_result.split)
qed

subsection \<open>The claims\<close>

text \<open>
  C1. On every invocation after initialization (the once flag is set): when the
  snapshot that \<^verbatim>\<open>update\<close> recomputes is unequal, by \<^verbatim>\<open>operator==\<close>, to the baseline
  \<^verbatim>\<open>init_\<close>, \<^verbatim>\<open>RunOnDevice\<close> throws the enforce failure "Inputs/outputs have changed"
  and \<^verbatim>\<open>algorithm_->run()\<close> is not called.
\<close>

theorem drift_is_fatal:
  assumes "once (self m)"
    and "update b (current (self m)) = (None, c)"
    and "\<not> params_eq c (init (self m))"
  shows "fst (RunOnDevice r b m) = Threw (EnforceNotMet ''Inputs/outputs have changed'') \<and>
         runs (snd (RunOnDevice r b m)) = runs m"
  using assms by (simp add: RunOnDevice_def call_once_def)

theorem drift_is_fatal_witness:
  "once (self ready_machine) \<and>
   update second_moved (current (self ready_machine)) =
     (None, \<lparr>context_gp = 7, inputs = [100, 300], outputs = [100, 300], size_gp = 4, meta = 1\<rparr>) \<and>
   \<not> params_eq \<lparr>context_gp = 7, inputs = [100, 300], outputs = [100, 300], size_gp = 4, meta = 1\<rparr>
         (init (self ready_machine)) \<and>
   fst (RunOnDevice Completes second_moved ready_machine) =
     Threw (EnforceNotMet ''Inputs/outputs have changed'') \<and>
   runs (snd (RunOnDevice Completes second_moved ready_machine)) = runs ready_machine"
proof -
  have h1: "once (self ready_machine)"
    by code_simp
  have h2: "update second_moved (current (self ready_machine)) =
      (None, \<lparr>context_gp = 7, inputs = [100, 300], outputs = [100, 300], size_gp = 4, meta = 1\<rparr>)"
    by code_simp
  have h3: "\<not> params_eq
      \<lparr>context_gp = 7, inputs = [100, 300], outputs = [100, 300], size_gp = 4, meta = 1\<rparr>
      (init (self ready_machine))"
    by code_simp
  from drift_is_fatal [OF h1 h2 h3, of Completes] h1 h2 h3 show ?thesis
    by simp
qed

text \<open>
  C3. Two snapshots are equal, by \<^verbatim>\<open>operator==\<close>, exactly when they have the same
  context, the same input addresses, the same output addresses and the same element
  count. The element type is not compared: snapshots that differ only in \<^verbatim>\<open>meta\<close> are
  equal, and when an initialized operator passes the drift check on some blobs, it
  passes it, with the same outcome, on blobs that differ from them only in the
  element types of the tensors.
\<close>

theorem snapshot_equality_ignores_type:
  "(params_eq a other \<longleftrightarrow>
      context_gp a = context_gp other \<and> inputs a = inputs other \<and>
      outputs a = outputs other \<and> size_gp a = size_gp other) \<and>
   params_eq (a\<lparr>meta := t\<rparr>) (a\<lparr>meta := t'\<rparr>) \<and>
   (once (self m) \<and>
    context_blob b' = context_blob b \<and>
    map raw_data (input_tensors b') = map raw_data (input_tensors b) \<and>
    map size_tensor (input_tensors b') = map size_tensor (input_tensors b) \<and>
    map raw_data (output_tensors b') = map raw_data (output_tensors b) \<and>
    map size_tensor (output_tensors b') = map size_tensor (output_tensors b) \<and>
    runs (snd (RunOnDevice r b m)) = Suc (runs m) \<longrightarrow>
    runs (snd (RunOnDevice r b' m)) = Suc (runs m) \<and>
    fst (RunOnDevice r b' m) = fst (RunOnDevice r b m))"
proof (intro conjI impI)
  show "params_eq a other \<longleftrightarrow>
      context_gp a = context_gp other \<and> inputs a = inputs other \<and>
      outputs a = outputs other \<and> size_gp a = size_gp other"
    by (simp add: params_eq_def)
  show "params_eq (a\<lparr>meta := t\<rparr>) (a\<lparr>meta := t'\<rparr>)"
    by (simp add: params_eq_def)
next
  assume h: "once (self m) \<and>
    context_blob b' = context_blob b \<and>
    map raw_data (input_tensors b') = map raw_data (input_tensors b) \<and>
    map size_tensor (input_tensors b') = map size_tensor (input_tensors b) \<and>
    map raw_data (output_tensors b') = map raw_data (output_tensors b) \<and>
    map size_tensor (output_tensors b') = map size_tensor (output_tensors b) \<and>
    runs (snd (RunOnDevice r b m)) = Suc (runs m)"
  then have sz: "map size_tensor (output_tensors b') = map size_tensor (output_tensors b)"
    by simp
  have s: "size_tensor (hd (output_tensors b')) = size_tensor (hd (output_tensors b))"
  proof (cases "output_tensors b")
    case Nil
    with sz show ?thesis by simp
  next
    case (Cons u us)
    with sz show ?thesis by (cases "output_tensors b'") simp_all
  qed
  from h s have *: "runs (snd (RunOnDevice r b' m)) = Suc (runs m) \<and>
      fst (RunOnDevice r b' m) = fst (RunOnDevice r b m)"
    by (intro RunOnDevice_same_buffers) simp_all
  from * show "runs (snd (RunOnDevice r b' m)) = Suc (runs m)" by simp
  from * show "fst (RunOnDevice r b' m) = fst (RunOnDevice r b m)" by simp
qed

text \<open>The operator initialized on tensors of type 1 runs on the same buffers with type 2.\<close>

theorem snapshot_equality_ignores_type_witness:
  "once (self ready_machine) \<and>
   context_blob both_retyped = context_blob two_tensors \<and>
   map raw_data (input_tensors both_retyped) = map raw_data (input_tensors two_tensors) \<and>
   map size_tensor (input_tensors both_retyped) = map size_tensor (input_tensors two_tensors) \<and>
   map raw_data (output_tensors both_retyped) = map raw_data (output_tensors two_tensors) \<and>
   map size_tensor (output_tensors both_retyped) = map size_tensor (output_tensors two_tensors) \<and>
   map meta_tensor (input_tensors both_retyped) \<noteq> map meta_tensor (input_tensors two_tensors) \<and>
   runs (snd (RunOnDevice Completes two_tensors ready_machine)) = Suc (runs ready_machine) \<and>
   runs (snd (RunOnDevice Completes both_retyped ready_machine)) = Suc (runs ready_machine) \<and>
   fst (RunOnDevice Completes both_retyped ready_machine) = Returned True"
proof -
  have h: "once (self ready_machine) \<and>
    context_blob both_retyped = context_blob two_tensors \<and>
    map raw_data (input_tensors both_retyped) = map raw_data (input_tensors two_tensors) \<and>
    map size_tensor (input_tensors both_retyped) = map size_tensor (input_tensors two_tensors) \<and>
    map raw_data (output_tensors both_retyped) = map raw_data (output_tensors two_tensors) \<and>
    map size_tensor (output_tensors both_retyped) = map size_tensor (output_tensors two_tensors) \<and>
    runs (snd (RunOnDevice Completes two_tensors ready_machine)) = Suc (runs ready_machine)"
    by code_simp
  have d: "map meta_tensor (input_tensors both_retyped) \<noteq> map meta_tensor (input_tensors two_tensors)"
    by code_simp
  have t: "fst (RunOnDevice Completes two_tensors ready_machine) = Returned True"
    by code_simp
  from snapshot_equality_ignores_type
    [of _ _ _ _ ready_machine both_retyped two_tensors Completes, THEN conjunct2, THEN conjunct2]
    h d t
  show ?thesis by simp
qed

text \<open>
  C7. Once initialization has completed (the once flag is set), no call of
  \<^verbatim>\<open>RunOnDevice\<close> changes the baseline snapshot \<^verbatim>\<open>init_\<close> or the binding \<^verbatim>\<open>algorithm_\<close>,
  whatever the blobs of the call and whatever \<^verbatim>\<open>run()\<close> does: success, a failed drift
  check and a communication fault alike.
\<close>

theorem baseline_and_binding_frozen:
  assumes "once (self m)"
  shows "init (self (snd (RunOnDevice r b m))) = init (self m) \<and>
         algorithm (self (snd (RunOnDevice r b m))) = algorithm (self m) \<and>
         once (self (snd (RunOnDevice r b m)))"
  using assms
  by (simp add: RunOnDevice_def call_once_def Let_def
        split: prod.splits option.splits run_result.splits)

text \<open>A run that hits a communication fault, and a run that fails the drift check.\<close>

theorem baseline_and_binding_frozen_witness:
  "once (self ready_machine) \<and>
   init (self (snd (RunOnDevice (ThrowsIo ''peer unreachable'') two_tensors ready_machine))) =
     init (self ready_machine) \<and>
   algorithm (self (snd (RunOnDevice (ThrowsIo ''peer unreachable'') two_tensors ready_machine))) =
     algorithm (self ready_machine) \<and>
   init (self (snd (RunOnDevice Completes second_moved ready_machine))) =
     init (self ready_machine) \<and>
   algorithm (self (snd (RunOnDevice Completes second_moved ready_machine))) =
     algorithm (self ready_machine)"
proof -
  have h: "once (self ready_machine)"
    by code_simp
  from baseline_and_binding_frozen [OF h, of "ThrowsIo ''peer unreachable''" two_tensors]
    baseline_and_binding_frozen [OF h, of Completes second_moved] h
  show ?thesis by simp
qed





text \<open>
  C5. When \<^verbatim>\<open>algorithm_->run()\<close> has been called (the run counter went up by one):
  if it completes, \<^verbatim>\<open>RunOnDevice\<close> returns true; if it throws an IO exception and the
  status blob is named and present in the workspace, \<^verbatim>\<open>signalFailure\<close> is applied to
  that blob and the exception, so that the blob holds the failure record, and
  \<^verbatim>\<open>RunOnDevice\<close> returns false; if it throws an IO exception and no status blob is
  named, the exception is thrown on and the workspace is untouched.
\<close>

theorem communication_fault_handling:
  assumes "runs (snd (RunOnDevice r b m)) = Suc (runs m)"
  shows "(r = Completes \<longrightarrow> fst (RunOnDevice r b m) = Returned True) \<and>
         (r = ThrowsIo what \<and> status_blob (self m) \<noteq> '''' \<and>
          workspace m (status_blob (self m)) \<noteq> None \<longrightarrow>
            fst (RunOnDevice r b m) = Returned False \<and>
            workspace (snd (RunOnDevice r b m)) =
              signalFailure (workspace m) (status_blob (self m)) what \<and>
            workspace (snd (RunOnDevice r b m)) (status_blob (self m)) =
              Some (FailureRecord what)) \<and>
         (r = ThrowsIo what \<and> status_blob (self m) = '''' \<longrightarrow>
            fst (RunOnDevice r b m) = Threw (IoException what) \<and>
            workspace (snd (RunOnDevice r b m)) = workspace m)"
proof -
  obtain f0 op1 where co: "call_once b (self m) = (f0, op1)"
    by (cases "call_once b (self m)")
  then have sb: "status_blob op1 = status_blob (self m)"
    using call_once_frame [of b "self m"] by simp
  obtain f1 c where up: "update b (current op1) = (f1, c)"
    by (cases "update b (current op1)")
  from assms co up have f0: "f0 = None" and f1: "f1 = None"
    and eq: "params_eq c (init op1)" and a: "algorithm op1 \<noteq> None"
    by (auto simp: RunOnDevice_def Let_def split: option.splits if_splits)
  from a obtain al where al: "algorithm op1 = Some al"
    by blast
  show ?thesis
    by (auto simp: RunOnDevice_def Let_def co up f0 f1 eq al sb GetBlob_def signalFailure_def)
qed

text \<open>A successful run, a fault with the status blob, and a fault without it.\<close>

theorem communication_fault_handling_witness:
  "runs (snd (RunOnDevice Completes two_tensors ready_machine)) = Suc (runs ready_machine) \<and>
   fst (RunOnDevice Completes two_tensors ready_machine) = Returned True \<and>
   status_blob (self signalling_machine) = ''status'' \<and>
   workspace signalling_machine ''status'' = Some EmptyBlob \<and>
   fst (RunOnDevice (ThrowsIo ''peer unreachable'') two_tensors signalling_machine) =
     Returned False \<and>
   workspace (snd (RunOnDevice (ThrowsIo ''peer unreachable'') two_tensors signalling_machine))
       ''status'' = Some (FailureRecord ''peer unreachable'') \<and>
   status_blob (self ready_machine) = '''' \<and>
   fst (RunOnDevice (ThrowsIo ''peer unreachable'') two_tensors ready_machine) =
     Threw (IoException ''peer unreachable'')"
proof -
  have r1: "runs (snd (RunOnDevice Completes two_tensors ready_machine)) = Suc (runs ready_machine)"
    by code_simp
  have r2: "runs (snd (RunOnDevice (ThrowsIo ''peer unreachable'') two_tensors signalling_machine)) =
      Suc (runs signalling_machine)"
    by code_simp
  have r3: "runs (snd (RunOnDevice (ThrowsIo ''peer unreachable'') two_tensors ready_machine)) =
      Suc (runs ready_machine)"
    by code_simp
  have s2: "status_blob (self signalling_machine) = ''status''"
    by code_simp
  have w2: "workspace signalling_machine ''status'' = Some EmptyBlob"
    by code_simp
  have s3: "status_blob (self ready_machine) = ''''"
    by code_simp
  from communication_fault_handling [OF r1]
    communication_fault_handling [OF r2, of "''peer unreachable''"]
    communication_fault_handling [OF r3, of "''peer unreachable''"]
    r1 s2 w2 s3
  show ?thesis by (simp add: signalFailure_def)
qed

text \<open>
  C9. The snapshot that \<^verbatim>\<open>update\<close> computes has the element count and the element type
  of output 0 alone. So an initialized operator that passes the drift check on some
  blobs passes it, with the same outcome, on any blobs with the same context, the same
  addresses and the same element count of output 0; and there are two invocations,
  the second with another element count in its second buffer, that both run.
\<close>

theorem count_read_from_first_output_only:
  "(update b p = (None, q) \<longrightarrow>
      size_gp q = size_tensor (output_tensors b ! 0) \<and>
      meta q = meta_tensor (output_tensors b ! 0)) \<and>
   (once (self m) \<and>
    context_blob b' = context_blob b \<and>
    map raw_data (input_tensors b') = map raw_data (input_tensors b) \<and>
    map raw_data (output_tensors b') = map raw_data (output_tensors b) \<and>
    size_tensor (hd (output_tensors b')) = size_tensor (hd (output_tensors b)) \<and>
    runs (snd (RunOnDevice r b m)) = Suc (runs m) \<longrightarrow>
      runs (snd (RunOnDevice r b' m)) = Suc (runs m) \<and>
      fst (RunOnDevice r b' m) = fst (RunOnDevice r b m)) \<and>
   (\<exists>b1 b2.
      context_blob b2 = context_blob b1 \<and>
      map raw_data (input_tensors b2) = map raw_data (input_tensors b1) \<and>
      map raw_data (output_tensors b2) = map raw_data (output_tensors b1) \<and>
      size_tensor (output_tensors b2 ! 0) = size_tensor (output_tensors b1 ! 0) \<and>
      size_tensor (input_tensors b2 ! 1) \<noteq> size_tensor (input_tensors b1 ! 1) \<and>
      size_tensor (output_tensors b2 ! 1) \<noteq> size_tensor (output_tensors b1 ! 1) \<and>
      fst (RunOnDevice Completes b1 (AllreduceOp_new [] empty_workspace)) = Returned True \<and>
      fst (RunOnDevice Completes b2
             (snd (RunOnDevice Completes b1 (AllreduceOp_new [] empty_workspace)))) =
        Returned True \<and>
      runs (snd (RunOnDevice Completes b2
             (snd (RunOnDevice Completes b1 (AllreduceOp_new [] empty_workspace))))) = 2)"
proof (intro conjI)
  show "update b p = (None, q) \<longrightarrow>
      size_gp q = size_tensor (output_tensors b ! 0) \<and>
      meta q = meta_tensor (output_tensors b ! 0)"
  proof
    assume u: "update b p = (None, q)"
    then have "fst (update b p) = None" by simp
    then have "length (input_tensors b) \<le> length (output_tensors b)" "output_tensors b \<noteq> []"
      by (simp_all add: update_fault split: if_splits)
    from update_returns [OF this, of p] u
    show "size_gp q = size_tensor (output_tensors b ! 0) \<and>
      meta q = meta_tensor (output_tensors b ! 0)"
      by auto
  qed
  show "once (self m) \<and>
    context_blob b' = context_blob b \<and>
    map raw_data (input_tensors b') = map raw_data (input_tensors b) \<and>
    map raw_data (output_tensors b') = map raw_data (output_tensors b) \<and>
    size_tensor (hd (output_tensors b')) = size_tensor (hd (output_tensors b)) \<and>
    runs (snd (RunOnDevice r b m)) = Suc (runs m) \<longrightarrow>
      runs (snd (RunOnDevice r b' m)) = Suc (runs m) \<and>
      fst (RunOnDevice r b' m) = fst (RunOnDevice r b m)"
    using RunOnDevice_same_buffers [of m b' b r] by blast
  show "\<exists>b1 b2.
      context_blob b2 = context_blob b1 \<and>
      map raw_data (input_tensors b2) = map raw_data (input_tensors b1) \<and>
      map raw_data (output_tensors b2) = map raw_data (output_tensors b1) \<and>
      size_tensor (output_tensors b2 ! 0) = size_tensor (output_tensors b1 ! 0) \<and>
      size_tensor (input_tensors b2 ! 1) \<noteq> size_tensor (input_tensors b1 ! 1) \<and>
      size_tensor (output_tensors b2 ! 1) \<noteq> size_tensor (output_tensors b1 ! 1) \<and>
      fst (RunOnDevice Completes b1 (AllreduceOp_new [] empty_workspace)) = Returned True \<and>
      fst (RunOnDevice Completes b2
             (snd (RunOnDevice Completes b1 (AllreduceOp_new [] empty_workspace)))) =
        Returned True \<and>
      runs (snd (RunOnDevice Completes b2
             (snd (RunOnDevice Completes b1 (AllreduceOp_new [] empty_workspace))))) = 2"
    by (rule exI [of _ two_tensors], rule exI [of _ second_resized], intro conjI; code_simp)
qed

text \<open>The second buffer grows from four to eight elements between the runs.\<close>

theorem count_read_from_first_output_only_witness:
  "update second_resized (current (self ready_machine)) =
     (None, \<lparr>context_gp = 7, inputs = [100, 200], outputs = [100, 200], size_gp = 4, meta = 1\<rparr>) \<and>
   size_tensor (output_tensors second_resized ! 0) = 4 \<and>
   size_tensor (output_tensors second_resized ! 1) = 8 \<and>
   once (self ready_machine) \<and>
   runs (snd (RunOnDevice Completes two_tensors ready_machine)) = Suc (runs ready_machine) \<and>
   runs (snd (RunOnDevice Completes second_resized ready_machine)) = Suc (runs ready_machine) \<and>
   fst (RunOnDevice Completes second_resized ready_machine) = Returned True"
proof -
  have u: "update second_resized (current (self ready_machine)) =
     (None, \<lparr>context_gp = 7, inputs = [100, 200], outputs = [100, 200], size_gp = 4, meta = 1\<rparr>)"
    by code_simp
  have v: "size_tensor (output_tensors second_resized ! 0) = 4 \<and>
      size_tensor (output_tensors second_resized ! 1) = 8"
    by code_simp
  have h: "once (self ready_machine) \<and>
    context_blob second_resized = context_blob two_tensors \<and>
    map raw_data (input_tensors second_resized) = map raw_data (input_tensors two_tensors) \<and>
    map raw_data (output_tensors second_resized) = map raw_data (output_tensors two_tensors) \<and>
    size_tensor (hd (output_tensors second_resized)) = size_tensor (hd (output_tensors two_tensors)) \<and>
    runs (snd (RunOnDevice Completes two_tensors ready_machine)) = Suc (runs ready_machine)"
    by code_simp
  have t: "fst (RunOnDevice Completes two_tensors ready_machine) = Returned True"
    by code_simp
  from count_read_from_first_output_only
      [where b = second_resized and p = "current (self ready_machine)" and
        q = "\<lparr>context_gp = 7, inputs = [100, 200], outputs = [100, 200], size_gp = 4, meta = 1\<rparr>"]
    count_read_from_first_output_only
      [where m = ready_machine and b' = second_resized and b = two_tensors and r = Completes]
    u v h t
  show ?thesis by simp
qed

text \<open>
  C10. When a call has at least one tensor input and as many outputs as tensor inputs,
  every blob access of \<^verbatim>\<open>update\<close> and of \<^verbatim>\<open>initialize\<close> is in bounds: \<^verbatim>\<open>update\<close> returns,
  and a fault of \<^verbatim>\<open>initialize\<close> is the failure of one of its checks, never
  \<open>OutOfRange\<close>. A call without tensor inputs is outside this precondition, and there
  \<^verbatim>\<open>Input(1)\<close> of \<^verbatim>\<open>initialize\<close> is out of range.
\<close>

theorem tensor_accesses_in_bounds:
  "(input_tensors b \<noteq> [] \<and> length (output_tensors b) = length (input_tensors b) \<longrightarrow>
      fst (update b p) = None \<and>
      fst (initialize b op) \<noteq> Some OutOfRange \<and>
      fst (initialize b op) =
        (if \<not> in_place b
         then Some (EnforceNotMet ''init_.inputs[i] == init_.outputs[i]'')
         else if \<not> uniform_size b
         then Some (EnforceNotMet ''Input(i).size() == size'')
         else if \<not> uniform_meta b
         then Some (EnforceNotMet ''Input(i).meta() == meta'')
         else None)) \<and>
   (input_tensors b = [] \<longrightarrow> fst (initialize b op) = Some OutOfRange)"
proof (intro conjI impI)
  assume h: "input_tensors b \<noteq> [] \<and> length (output_tensors b) = length (input_tensors b)"
  then have o: "output_tensors b \<noteq> []" by auto
  from h o show "fst (update b p) = None"
    by (simp add: update_fault)
  from h show "fst (initialize b op) \<noteq> Some OutOfRange"
    by (simp add: initialize_fault same_count_def)
  from h show "fst (initialize b op) =
        (if \<not> in_place b
         then Some (EnforceNotMet ''init_.inputs[i] == init_.outputs[i]'')
         else if \<not> uniform_size b
         then Some (EnforceNotMet ''Input(i).size() == size'')
         else if \<not> uniform_meta b
         then Some (EnforceNotMet ''Input(i).meta() == meta'')
         else None)"
    by (simp add: initialize_fault same_count_def)
next
  assume "input_tensors b = []"
  then show "fst (initialize b op) = Some OutOfRange"
    by (simp add: initialize_no_tensor)
qed

text \<open>Two tensors reduced in place; and the context alone.\<close>

theorem tensor_accesses_in_bounds_witness:
  "input_tensors two_tensors \<noteq> [] \<and>
   length (output_tensors two_tensors) = length (input_tensors two_tensors) \<and>
   fst (update two_tensors empty_parameters) = None \<and>
   fst (initialize two_tensors (self (AllreduceOp_new [] empty_workspace))) = None \<and>
   input_tensors context_only = [] \<and>
   fst (initialize context_only (self (AllreduceOp_new [] empty_workspace))) = Some OutOfRange"
proof -
  have h: "input_tensors two_tensors \<noteq> [] \<and>
      length (output_tensors two_tensors) = length (input_tensors two_tensors)"
    by code_simp
  have v: "in_place two_tensors \<and> uniform_size two_tensors \<and> uniform_meta two_tensors"
    by code_simp
  have e: "input_tensors context_only = []"
    by code_simp
  from tensor_accesses_in_bounds
      [of two_tensors empty_parameters "self (AllreduceOp_new [] empty_workspace)"]
    tensor_accesses_in_bounds
      [of context_only empty_parameters "self (AllreduceOp_new [] empty_workspace)"]
    h v e
  show ?thesis by simp
qed

text \<open>
  C2, as stated: the mode used at initialization is the one the option
  \<^verbatim>\<open>algorithm_mode\<close> of the configuration names. It fails: with \<^verbatim>\<open>algorithm_mode\<close> set to
  ring-full the binding is the halving-doubling one.
\<close>

theorem configured_mode_is_ignored:
  "fst (initialize two_tensors (self (AllreduceOp_new ring_full_config empty_workspace))) = None \<and>
   spec_algorithm_mode ring_full_config = Some RING_FULL \<and>
   bound_mode (snd (initialize two_tensors
       (self (AllreduceOp_new ring_full_config empty_workspace)))) = Some HALVING_DOUBLING \<and>
   bound_mode (snd (initialize two_tensors
       (self (AllreduceOp_new ring_full_config empty_workspace)))) \<noteq>
     spec_algorithm_mode ring_full_config"
  by (intro conjI; code_simp)

text \<open>
  C2, amended. The mode used at initialization is halving-doubling for every
  configuration: an \<^verbatim>\<open>algorithm_mode\<close> option makes no difference to the operator that
  the constructor builds, and every successful \<^verbatim>\<open>initialize\<close> stores the halving-doubling
  binding. This is the spec's mode when the option is absent.
\<close>

theorem mode_is_always_halving_doubling:
  "AllreduceOp_new ((''algorithm_mode'', v) # operator_def) ws = AllreduceOp_new operator_def ws \<and>
   (fst (initialize b (self (AllreduceOp_new operator_def ws))) = None \<longrightarrow>
      bound_mode (snd (initialize b (self (AllreduceOp_new operator_def ws)))) =
        Some HALVING_DOUBLING) \<and>
   (map_of operator_def ''algorithm_mode'' = None \<longrightarrow>
      spec_algorithm_mode operator_def = Some HALVING_DOUBLING)"
proof (intro conjI impI)
  have "GetSingleArgument_string ((''algorithm_mode'', v) # operator_def) ''status_blob'' '''' =
      GetSingleArgument_string operator_def ''status_blob'' ''''"
    by (simp add: GetSingleArgument_string_def)
  moreover
  have "GetSingleArgument_bool ((''algorithm_mode'', v) # operator_def) ''gpu_direct'' False =
      GetSingleArgument_bool operator_def ''gpu_direct'' False"
    by (simp add: GetSingleArgument_bool_def)
  ultimately
  show "AllreduceOp_new ((''algorithm_mode'', v) # operator_def) ws = AllreduceOp_new operator_def ws"
    by (simp add: AllreduceOp_new_def)
next
  assume "fst (initialize b (self (AllreduceOp_new operator_def ws))) = None"
  then show "bound_mode (snd (initialize b (self (AllreduceOp_new operator_def ws)))) =
      Some HALVING_DOUBLING"
    by (simp add: initialize_binding bound_mode_def)
next
  assume "map_of operator_def ''algorithm_mode'' = None"
  then show "spec_algorithm_mode operator_def = Some HALVING_DOUBLING"
    by (simp add: spec_algorithm_mode_def)
qed

text \<open>The ring-full configuration, and the empty one.\<close>

theorem mode_is_always_halving_doubling_witness:
  "AllreduceOp_new ring_full_config empty_workspace = AllreduceOp_new [] empty_workspace \<and>
   fst (initialize two_tensors (self (AllreduceOp_new ring_full_config empty_workspace))) = None \<and>
   bound_mode (snd (initialize two_tensors
       (self (AllreduceOp_new ring_full_config empty_workspace)))) = Some HALVING_DOUBLING \<and>
   map_of ([] :: OperatorDef) ''algorithm_mode'' = None \<and>
   spec_algorithm_mode [] = Some HALVING_DOUBLING"
proof -
  have h: "fst (initialize two_tensors
      (self (AllreduceOp_new ring_full_config empty_workspace))) = None"
    by code_simp
  have c: "ring_full_config = [(''algorithm_mode'', StringArg ''ring-full'')]"
    by (simp add: ring_full_config_def)
  from mode_is_always_halving_doubling
      [where b = two_tensors and operator_def = ring_full_config and ws = empty_workspace]
    mode_is_always_halving_doubling
      [where b = two_tensors and operator_def = "[]" and ws = empty_workspace and
        v = "StringArg ''ring-full''"]
    h c
  show ?thesis by simp
qed

end
